theory Spec2Isabelle
  imports Main "HOL-Library.AList"
begin

section \<open>Trivia API: data model\<close>

text \<open>
  The backend is a Flask application (\<^verbatim>\<open>backend/flaskr/__init__.py\<close>) over two tables,
  with one helper (\<^verbatim>\<open>backend/utils.py\<close>). The module \<^verbatim>\<open>models.py\<close> that declares the
  tables is not among the sources; the rows, their \<^verbatim>\<open>format()\<close> and the persistence
  operations are taken from the specification's data model.
\<close>

text \<open>Modelled from the spec: the row of table Category, \<^verbatim>\<open>{id, type}\<close>.\<close>

record category =
  c_id :: int
  c_type :: string

text \<open>Modelled from the spec: the row of table Question,
  \<^verbatim>\<open>{id, question, answer, difficulty, category}\<close>, category being an integer that refers
  to a Category id without the reference being enforced.\<close>

record question =
  q_id :: int
  q_question :: string
  q_answer :: string
  q_difficulty :: int
  q_category :: int

text \<open>Modelled from the spec: the plain mapping \<^verbatim>\<open>Question.format()\<close> returns, an object
  \<^verbatim>\<open>{id, question, answer, difficulty, category}\<close>.\<close>

record question_dict =
  d_id :: int
  d_question :: string
  d_answer :: string
  d_difficulty :: int
  d_category :: int

definition format_question :: "question \<Rightarrow> question_dict" where
  "format_question q =
     \<lparr>d_id = q_id q, d_question = q_question q, d_answer = q_answer q,
      d_difficulty = q_difficulty q, d_category = q_category q\<rparr>"

text \<open>The relational store: the rows of both tables in the order an unordered
  \<^verbatim>\<open>SELECT\<close> yields them, and the sequence the next question id is drawn from.\<close>

record store =
  questions :: "question list"
  categories :: "category list"
  question_id_seq :: int

text \<open>The part of the Flask request the handlers read from the query string:
  \<^verbatim>\<open>request.args.get("page", 1, type=int)\<close> yields the default both when the argument is
  absent and when it does not parse as an integer, so the argument is an optional integer.\<close>

record request =
  args_page :: "int option"

section \<open>Python and Flask primitives\<close>

text \<open>What a handler can raise. \<open>HTTPException c\<close> is what \<^verbatim>\<open>abort(c)\<close> raises; it is an
  ordinary exception, so a bare \<^verbatim>\<open>except:\<close> around the call catches it.\<close>

datatype exn =
    HTTPException nat
  | IndexError
  | AttributeError
  | ArgumentError
  | MultipleResultsFound
  | DatabaseError

definition abort :: "nat \<Rightarrow> exn + 'a" where
  "abort code = Inl (HTTPException code)"

text \<open>\<^verbatim>\<open>try: ... except: abort(code)\<close>: every exception of the body, the body's own
  \<^verbatim>\<open>abort\<close> included, is replaced by \<^verbatim>\<open>abort(code)\<close>.\<close>

definition try_except_abort :: "exn + 'a \<Rightarrow> nat \<Rightarrow> exn + 'a" where
  "try_except_abort body code = (case body of Inl e \<Rightarrow> abort code | Inr v \<Rightarrow> Inr v)"

text \<open>Python's \<^verbatim>\<open>xs[start:end]\<close> on a list: a negative bound counts from the end, and
  both bounds are then clamped to the list.\<close>

definition slice_bound :: "int \<Rightarrow> nat \<Rightarrow> nat" where
  "slice_bound i n = (if i < 0 then nat (max (i + int n) 0) else min (nat i) n)"

definition py_slice :: "'a list \<Rightarrow> int \<Rightarrow> int \<Rightarrow> 'a list" where
  "py_slice xs start end =
     (let lo = slice_bound start (length xs); hi = slice_bound end (length xs)
      in take (hi - lo) (drop lo xs))"

section \<open>utils.py\<close>

definition paginate_resources :: "('a \<Rightarrow> 'b) \<Rightarrow> request \<Rightarrow> 'a list \<Rightarrow> int \<Rightarrow> 'b list" where
  "paginate_resources format request selection max_page =
     (let page = (case args_page request of None \<Rightarrow> 1 | Some p \<Rightarrow> p);
          start = (page - 1) * max_page;
          end = start + max_page;
          resources = map format selection;
          current_resources = py_slice resources start end
      in current_resources)"

section \<open>Query results, random choice, JSON values\<close>

text \<open>\<^verbatim>\<open>xs[i]\<close> on a Python list: a negative index counts from the end, an index outside
  the list raises \<^verbatim>\<open>IndexError\<close>.\<close>

definition getitem :: "'a list \<Rightarrow> int \<Rightarrow> exn + 'a" where
  "getitem xs i =
     (let j = (if i < 0 then i + int (length xs) else i)
      in if 0 \<le> j \<and> j < int (length xs) then Inr (xs ! nat j) else Inl IndexError)"

text \<open>\<^verbatim>\<open>Query.first()\<close>: the first row of the result, or \<^verbatim>\<open>None\<close>.\<close>

definition first_row :: "'a list \<Rightarrow> 'a option" where
  "first_row rows = (case rows of [] \<Rightarrow> None | r # _ \<Rightarrow> Some r)"

text \<open>\<^verbatim>\<open>Query.one_or_none()\<close>: the only row of the result, \<^verbatim>\<open>None\<close> when there is none;
  more than one row raises.\<close>

definition one_or_none :: "'a list \<Rightarrow> exn + 'a option" where
  "one_or_none rows =
     (case rows of [] \<Rightarrow> Inr None | [r] \<Rightarrow> Inr (Some r) | _ \<Rightarrow> Inl MultipleResultsFound)"

text \<open>\<^verbatim>\<open>random.choice(seq)\<close>: raises \<^verbatim>\<open>IndexError\<close> on an empty sequence, otherwise
  returns the element at an index below the length; \<open>draw\<close> is the value the random source
  delivers, so every index can be chosen.\<close>

definition random_choice :: "nat \<Rightarrow> 'a list \<Rightarrow> exn + 'a" where
  "random_choice draw seq =
     (if seq = [] then Inl IndexError else Inr (seq ! (draw mod length seq)))"

text \<open>A parsed JSON value, as \<^verbatim>\<open>request.get_json()\<close> returns it; numbers are the
  integers. An object is the list of its items.\<close>

datatype json =
    JNull
  | JBool bool
  | JInt int
  | JStr string
  | JList "json list"
  | JObj "(string \<times> json) list"

text \<open>Python's truth value of such a value, as \<^verbatim>\<open>if v:\<close> and \<^verbatim>\<open>v and w\<close> test it.\<close>

fun truthy :: "json \<Rightarrow> bool" where
  "truthy JNull = False"
| "truthy (JBool b) = b"
| "truthy (JInt i) = (i \<noteq> 0)"
| "truthy (JStr s) = (s \<noteq> [])"
| "truthy (JList vs) = (vs \<noteq> [])"
| "truthy (JObj kvs) = (kvs \<noteq> [])"

text \<open>\<^verbatim>\<open>body.get(key, None)\<close> on a dict.\<close>

definition dict_get :: "(string \<times> json) list \<Rightarrow> string \<Rightarrow> json" where
  "dict_get kvs key = (case map_of kvs key of None \<Rightarrow> JNull | Some v \<Rightarrow> v)"

text \<open>The body of \<^verbatim>\<open>POST /quizzes\<close>: \<^verbatim>\<open>previous_questions\<close> is a list of question ids
  and \<^verbatim>\<open>quiz_category\<close> an object \<^verbatim>\<open>{id, type}\<close>; either is \<open>None\<close> when the key is
  absent or null.\<close>

record quiz_body =
  previous_questions :: "int list option"
  quiz_category :: "category option"

section \<open>models.py\<close>

text \<open>Modelled from the spec: \<^verbatim>\<open>Question.delete()\<close>, missing with \<^verbatim>\<open>models.py\<close>, removes
  the row with the question's primary key.\<close>

definition question_delete :: "question \<Rightarrow> store \<Rightarrow> store" where
  "question_delete q st = st\<lparr>questions := filter (\<lambda>r. q_id r \<noteq> q_id q) (questions st)\<rparr>"

text \<open>Modelled from the spec: \<^verbatim>\<open>Question(...).insert()\<close>, missing with \<^verbatim>\<open>models.py\<close>, adds
  one row under a fresh id. How the database types the four JSON values into the columns
  is the parameter \<open>columns\<close>; where it yields \<open>None\<close> the database rejects the row, the
  call raises and the table is unchanged.\<close>

definition question_insert ::
  "(json \<Rightarrow> json \<Rightarrow> json \<Rightarrow> json \<Rightarrow> (string \<times> string \<times> int \<times> int) option)
   \<Rightarrow> json \<Rightarrow> json \<Rightarrow> json \<Rightarrow> json \<Rightarrow> store \<Rightarrow> exn + store" where
  "question_insert columns question answer difficulty category st =
     (case columns question answer difficulty category of
        None \<Rightarrow> Inl DatabaseError
      | Some (qu, an, di, ca) \<Rightarrow>
          Inr (st\<lparr>questions := questions st @
                     [\<lparr>q_id = question_id_seq st, q_question = qu, q_answer = an,
                       q_difficulty = di, q_category = ca\<rparr>],
                   question_id_seq := question_id_seq st + 1\<rparr>))"

section \<open>flaskr/__init__.py: responses and error handlers\<close>

text \<open>The dictionaries the handlers pass to \<^verbatim>\<open>jsonify\<close>, one constructor for each shape.
  \<open>DefaultErrorPage\<close> is the page Flask itself renders for a status no handler is
  registered for.\<close>

datatype payload =
    Categories "(int \<times> string) list"
  | QuestionList "question_dict list" nat string "(int \<times> string) list"
  | Deleted nat
  | QuestionPage "question_dict list" nat string
  | Created
  | QuizQuestion question_dict
  | Failure nat string
  | DefaultErrorPage

text \<open>The \<^verbatim>\<open>success\<close> entry of each dictionary.\<close>

fun success :: "payload \<Rightarrow> bool" where
  "success (Failure code message) = False"
| "success DefaultErrorPage = False"
| "success p = True"

datatype response = Response (status_code: nat) (data: payload)

definition QUESTIONS_PER_PAGE :: int where
  "QUESTIONS_PER_PAGE = 10"

definition not_found :: response where
  "not_found = Response 404 (Failure 404 ''resource not found'')"

definition method_not_allowed :: response where
  "method_not_allowed = Response 405 (Failure 405 ''Method Not Allowed'')"

definition bad_request :: response where
  "bad_request = Response 400 (Failure 400 ''bad request'')"

definition unprocessable :: response where
  "unprocessable = Response 422 (Failure 422 ''unprocessable'')"

definition internal_error :: response where
  "internal_error = Response 500 (Failure 500 ''internal error'')"

text \<open>The handlers registered with \<^verbatim>\<open>@app.errorhandler\<close>.\<close>

definition errorhandler :: "nat \<Rightarrow> response option" where
  "errorhandler code =
     (if code = 404 then Some not_found
      else if code = 405 then Some method_not_allowed
      else if code = 400 then Some bad_request
      else if code = 422 then Some unprocessable
      else if code = 500 then Some internal_error
      else None)"

text \<open>What Flask makes of a view's outcome: a returned dictionary is sent with status 200,
  an \<^verbatim>\<open>HTTPException\<close> goes to the handler registered for its code, and any other
  exception is an internal server error, which goes to the handler for 500.\<close>

definition full_dispatch_request :: "exn + payload \<Rightarrow> response" where
  "full_dispatch_request outcome =
     (case outcome of
        Inr p \<Rightarrow> Response 200 p
      | Inl (HTTPException code) \<Rightarrow>
          (case errorhandler code of Some r \<Rightarrow> r | None \<Rightarrow> Response code DefaultErrorPage)
      | Inl _ \<Rightarrow> internal_error)"

section \<open>flaskr/__init__.py: views\<close>

text \<open>The loop \<^verbatim>\<open>for category in categories: data[category.id] = category.type\<close> on a
  dictionary that keeps insertion order.\<close>

definition category_data :: "category list \<Rightarrow> (int \<times> string) list" where
  "category_data cats =
     foldl (\<lambda>data category. AList.update (c_id category) (c_type category) data) [] cats"

definition get_categories :: "store \<Rightarrow> exn + payload" where
  "get_categories st =
     (let categories' = sort_key c_id (categories st)
      in Inr (Categories (category_data categories')))"

definition get_questions :: "request \<Rightarrow> store \<Rightarrow> exn + payload" where
  "get_questions request st =
     (let selection = sort_key q_id (questions st);
          current_questions =
            paginate_resources format_question request selection QUESTIONS_PER_PAGE
      in if length current_questions = 0 then abort 404
         else
           (case getitem current_questions 0 of
              Inl e \<Rightarrow> Inl e
            | Inr q0 \<Rightarrow>
                (let current_category =
                       first_row (filter (\<lambda>c. c_id c = d_category q0) (categories st));
                     data = category_data (sort_key c_id (categories st))
                 in case current_category of
                      None \<Rightarrow> Inl AttributeError
                    | Some cc \<Rightarrow>
                        Inr (QuestionList current_questions (length selection)
                               (c_type cc) data))))"

text \<open>The route converter \<^verbatim>\<open><int:question_id>\<close> only matches digits, so the id is a
  natural number. The view may change the store; it returns the store with its outcome.
  The whole body is inside \<^verbatim>\<open>try: ... except: abort(422)\<close>.\<close>

definition delete_question :: "nat \<Rightarrow> store \<Rightarrow> (exn + payload) \<times> store" where
  "delete_question question_id st =
     (let (outcome, st') =
            (case one_or_none (filter (\<lambda>q. q_id q = int question_id) (questions st)) of
               Inl e \<Rightarrow> (Inl e, st)
             | Inr None \<Rightarrow> (abort 404, st)
             | Inr (Some question) \<Rightarrow>
                 (Inr (Deleted question_id), question_delete question st))
      in (try_except_abort outcome 422, st'))"

text \<open>The database's part in \<^verbatim>\<open>POST /questions\<close> is two parameters: \<open>ilike v text\<close> is
  the test \<^verbatim>\<open>column.ilike(f"%{v}%")\<close> on a column holding \<open>text\<close>, and \<open>columns\<close> is the
  typing of a new row (see \<open>question_insert\<close>). The six \<^verbatim>\<open>body.get\<close> calls are outside the
  \<^verbatim>\<open>try\<close>, so a body that is not an object fails there; the branches are inside
  \<^verbatim>\<open>try: ... except: abort(422)\<close>.\<close>

definition create_new_question ::
  "(json \<Rightarrow> string \<Rightarrow> bool)
   \<Rightarrow> (json \<Rightarrow> json \<Rightarrow> json \<Rightarrow> json \<Rightarrow> (string \<times> string \<times> int \<times> int) option)
   \<Rightarrow> request \<Rightarrow> json \<Rightarrow> store \<Rightarrow> (exn + payload) \<times> store" where
  "create_new_question ilike columns request body st =
     (case body of
        JObj kvs \<Rightarrow>
          (let question = dict_get kvs ''question'';
               answer = dict_get kvs ''answer'';
               difficulty = dict_get kvs ''difficulty'';
               category = dict_get kvs ''category'';
               search_term = dict_get kvs ''searchTerm'';
               category_type = dict_get kvs ''type'';
               (outcome, st') =
                 (if truthy search_term then
                    (let selection =
                           filter (\<lambda>q. ilike search_term (q_question q))
                             (sort_key q_id (questions st));
                         current_questions =
                           paginate_resources format_question request selection
                             QUESTIONS_PER_PAGE
                     in case getitem current_questions 0 of
                          Inl e \<Rightarrow> (Inl e, st)
                        | Inr q0 \<Rightarrow>
                            (case first_row
                                    (filter (\<lambda>c. c_id c = d_category q0) (categories st)) of
                               None \<Rightarrow> (Inl AttributeError, st)
                             | Some current_category \<Rightarrow>
                                 (Inr (QuestionPage current_questions (length selection)
                                         (c_type current_category)), st)))
                  else if truthy question \<and> truthy answer \<and> truthy difficulty
                          \<and> truthy category
                  then
                    (case question_insert columns question answer difficulty category st of
                       Inl e \<Rightarrow> (Inl e, st)
                     | Inr inserted \<Rightarrow> (Inr Created, inserted))
                  else if truthy category_type then
                    (case one_or_none
                            (filter (\<lambda>c. ilike category_type (c_type c)) (categories st)) of
                       Inl e \<Rightarrow> (Inl e, st)
                     | Inr None \<Rightarrow> (abort 404, st)
                     | Inr (Some category') \<Rightarrow>
                         (let selection =
                                filter (\<lambda>q. q_category q = c_id category') (questions st);
                              current_questions =
                                paginate_resources format_question request selection
                                  QUESTIONS_PER_PAGE
                          in (Inr (QuestionPage current_questions (length selection)
                                     (c_type category')), st)))
                  else (abort 400, st))
           in (try_except_abort outcome 422, st'))
      | _ \<Rightarrow> (Inl AttributeError, st))"

definition get_questions_from_category :: "nat \<Rightarrow> request \<Rightarrow> store \<Rightarrow> exn + payload" where
  "get_questions_from_category category_id request st =
     try_except_abort
       (case one_or_none (filter (\<lambda>c. c_id c = int category_id) (categories st)) of
          Inl e \<Rightarrow> Inl e
        | Inr None \<Rightarrow> abort 404
        | Inr (Some category) \<Rightarrow>
            (let selection = filter (\<lambda>q. q_category q = int category_id) (questions st);
                 current_questions =
                   paginate_resources format_question request selection QUESTIONS_PER_PAGE
             in Inr (QuestionPage current_questions (length selection) (c_type category))))
       400"

text \<open>\<^verbatim>\<open>Question.id.in_(previous_questions)\<close> raises when the argument is \<^verbatim>\<open>None\<close>, in
  either branch of the view.\<close>

definition get_quizzes :: "nat \<Rightarrow> request \<Rightarrow> quiz_body \<Rightarrow> store \<Rightarrow> exn + payload" where
  "get_quizzes draw request body st =
     try_except_abort
       (case previous_questions body of
          None \<Rightarrow> Inl ArgumentError
        | Some previous \<Rightarrow>
            (let selection =
                   (case quiz_category body of
                      None \<Rightarrow> filter (\<lambda>q. q_id q \<notin> set previous) (questions st)
                    | Some qc \<Rightarrow>
                        filter (\<lambda>q. q_id q \<notin> set previous \<and> q_category q = c_id qc)
                          (questions st));
                 current_questions =
                   paginate_resources format_question request selection QUESTIONS_PER_PAGE
             in case random_choice draw current_questions of
                  Inl e \<Rightarrow> Inl e
                | Inr random_question \<Rightarrow> Inr (QuizQuestion random_question)))
       422"

section \<open>Models of the database parameters\<close>

text \<open>Python's \<^verbatim>\<open>str\<close> of an integer, and \<^verbatim>\<open>repr\<close> of a string, a list and a dict, which is
  what an f-string writes for a value that is not a string itself.\<close>

fun decimal :: "nat \<Rightarrow> string" where
  "decimal n =
     (if n < 10 then [char_of (48 + n)]
      else decimal (n div 10) @ [char_of (48 + n mod 10)])"

definition str_int :: "int \<Rightarrow> string" where
  "str_int i = (if i < 0 then CHR ''-'' # decimal (nat (- i)) else decimal (nat i))"

definition hex_digit :: "nat \<Rightarrow> char" where
  "hex_digit n = (if n < 10 then char_of (48 + n) else char_of (87 + n))"

definition repr_char :: "char \<Rightarrow> char \<Rightarrow> string" where
  "repr_char quote c =
     (if c = quote \<or> c = CHR 0x5C then [CHR 0x5C, c]
      else if c = CHR 0x09 then [CHR 0x5C, CHR ''t'']
      else if c = CHR 0x0A then [CHR 0x5C, CHR ''n'']
      else if c = CHR 0x0D then [CHR 0x5C, CHR ''r'']
      else if (of_char c :: nat) < 32 \<or> (of_char c :: nat) = 127
      then [CHR 0x5C, CHR ''x'', hex_digit (of_char c div 16), hex_digit (of_char c mod 16)]
      else [c])"

definition repr_str :: "string \<Rightarrow> string" where
  "repr_str s =
     (let quote = (if CHR 0x27 \<in> set s \<and> CHR 0x22 \<notin> set s then CHR 0x22 else CHR 0x27)
      in quote # concat (map (repr_char quote) s) @ [quote])"

fun join :: "string \<Rightarrow> string list \<Rightarrow> string" where
  "join sep [] = []"
| "join sep [x] = x"
| "join sep (x # y # ys) = x @ sep @ join sep (y # ys)"

fun repr :: "json \<Rightarrow> string" where
  "repr JNull = ''None''"
| "repr (JBool b) = (if b then ''True'' else ''False'')"
| "repr (JInt i) = str_int i"
| "repr (JStr s) = repr_str s"
| "repr (JList vs) = ''['' @ join '', '' (map repr vs) @ '']''"
| "repr (JObj kvs) =
     ''{'' @ join '', '' (map (\<lambda>kv. repr_str (fst kv) @ '': '' @ repr (snd kv)) kvs) @ ''}''"

text \<open>\<^verbatim>\<open>f"{v}"\<close>: a string is written as it is, any other value as its \<^verbatim>\<open>repr\<close>.\<close>

definition format_value :: "json \<Rightarrow> string" where
  "format_value v = (case v of JStr s \<Rightarrow> s | _ \<Rightarrow> repr v)"

definition ascii_lower :: "char \<Rightarrow> char" where
  "ascii_lower c =
     (let n = (of_char c :: nat) in if 65 \<le> n \<and> n \<le> 90 then char_of (n + 32) else c)"

text \<open>PostgreSQL's \<^verbatim>\<open>LIKE\<close> on a pattern and a text: \<^verbatim>\<open>%\<close> stands for any run of characters,
  \<^verbatim>\<open>_\<close> for any one character, and a backslash makes the character after it stand for
  itself. The view never escapes the search term, so a \<^verbatim>\<open>%\<close>, \<^verbatim>\<open>_\<close> or backslash inside
  the term acts as such. A pattern that ends in a lone backslash, which the database refuses,
  matches nothing here; no pattern of the view ends so, since each ends in \<^verbatim>\<open>%\<close>.\<close>

fun like :: "string \<Rightarrow> string \<Rightarrow> bool" where
  "like [] [] = True"
| "like [] (c # cs) = False"
| "like (p # ps) [] = (p = CHR ''%'' \<and> like ps [])"
| "like (p # ps) (c # cs) =
     (if p = CHR ''%'' then like ps (c # cs) \<or> like (p # ps) cs
      else if p = CHR ''_'' then like ps cs
      else if p = CHR 0x5C then
        (case ps of [] \<Rightarrow> False | e # ps' \<Rightarrow> c = e \<and> like ps' cs)
      else c = p \<and> like ps cs)"

text \<open>The parameter \<open>ilike\<close> on PostgreSQL: \<^verbatim>\<open>column.ilike(f"%{v}%")\<close>, that is \<^verbatim>\<open>ILIKE\<close> with
  the pattern the f-string builds, letters compared without regard to case. A character is
  one \<open>char\<close> and the case folding is that of the ASCII letters.\<close>

definition postgres_ilike :: "json \<Rightarrow> string \<Rightarrow> bool" where
  "postgres_ilike v text =
     like (map ascii_lower (''%'' @ format_value v @ ''%'')) (map ascii_lower text)"

text \<open>The parameter \<open>columns\<close> on PostgreSQL, with the column types of the spec (text for
  question and answer, 32-bit integer for difficulty and category). A text column takes a
  string, and an integer or a boolean through its text form; an integer column takes an
  integer in range, and a string that is a decimal literal in range (optional blanks around
  it, optional sign), which is how the category \<^verbatim>\<open>"5"\<close> of the repository's test is
  stored. This model refuses every other value.\<close>

definition is_space :: "char \<Rightarrow> bool" where
  "is_space c = (c \<in> {CHR '' '', CHR 0x09, CHR 0x0A, CHR 0x0B, CHR 0x0C, CHR 0x0D})"

definition is_digit :: "char \<Rightarrow> bool" where
  "is_digit c = (48 \<le> (of_char c :: nat) \<and> (of_char c :: nat) \<le> 57)"

definition int_literal :: "string \<Rightarrow> int option" where
  "int_literal s =
     (let t = dropWhile is_space (rev (dropWhile is_space (rev s)));
          negative = (t \<noteq> [] \<and> hd t = CHR ''-'');
          ds = (if t \<noteq> [] \<and> (hd t = CHR ''-'' \<or> hd t = CHR ''+'') then tl t else t);
          n = foldl (\<lambda>acc c. acc * 10 + (of_char c - 48)) (0 :: int) ds
      in if ds \<noteq> [] \<and> list_all is_digit ds
         then Some (if negative then - n else n) else None)"

definition int4 :: "int \<Rightarrow> int option" where
  "int4 i = (if - 2147483648 \<le> i \<and> i \<le> 2147483647 then Some i else None)"

definition postgres_text :: "json \<Rightarrow> string option" where
  "postgres_text v =
     (case v of
        JStr s \<Rightarrow> Some s
      | JInt i \<Rightarrow> Some (str_int i)
      | JBool b \<Rightarrow> Some (if b then ''true'' else ''false'')
      | _ \<Rightarrow> None)"

definition postgres_integer :: "json \<Rightarrow> int option" where
  "postgres_integer v =
     (case v of
        JInt i \<Rightarrow> int4 i
      | JStr s \<Rightarrow> (case int_literal s of None \<Rightarrow> None | Some i \<Rightarrow> int4 i)
      | _ \<Rightarrow> None)"

definition postgres_columns ::
  "json \<Rightarrow> json \<Rightarrow> json \<Rightarrow> json \<Rightarrow> (string \<times> string \<times> int \<times> int) option" where
  "postgres_columns question answer difficulty category =
     (case (postgres_text question, postgres_text answer,
            postgres_integer difficulty, postgres_integer category) of
        (Some qu, Some an, Some di, Some ca) \<Rightarrow> Some (qu, an, di, ca)
      | _ \<Rightarrow> None)"

section \<open>The search as the claim words it\<close>

text \<open>Following the claim's words, not the code: the case-insensitive substring match of a
  search term against a text, in which every character of the term stands for itself.\<close>

fun contains :: "string \<Rightarrow> string \<Rightarrow> bool" where
  "contains pat [] = (pat = [])"
| "contains pat (c # cs) = (take (length pat) (c # cs) = pat \<or> contains pat cs)"

definition substring_ci :: "string \<Rightarrow> string \<Rightarrow> bool" where
  "substring_ci needle text = contains (map ascii_lower needle) (map ascii_lower text)"

text \<open>A term in which no character is special to \<^verbatim>\<open>LIKE\<close>.\<close>

definition wildcard_free :: "string \<Rightarrow> bool" where
  "wildcard_free s = (\<forall>c \<in> set s. c \<noteq> CHR ''%'' \<and> c \<noteq> CHR ''_'' \<and> c \<noteq> CHR 0x5C)"

section \<open>Example stores\<close>

text \<open>Two small stores on which the views are evaluated: one whose questions all refer to a
  stored category, and one whose only question refers to a category that is not stored.\<close>

definition sample_store :: store where
  "sample_store =
     \<lparr>questions =
        [\<lparr>q_id = 2, q_question = ''What is the heaviest organ in the human body?'',
          q_answer = ''The Liver'', q_difficulty = 4, q_category = 1\<rparr>,
         \<lparr>q_id = 1, q_question = ''What boxer was first named Cassius Clay?'',
          q_answer = ''Muhammad Ali'', q_difficulty = 1, q_category = 4\<rparr>,
         \<lparr>q_id = 3, q_question = ''Who invented Peanut Butter?'',
          q_answer = ''George Washington Carver'', q_difficulty = 2, q_category = 4\<rparr>],
      categories = [\<lparr>c_id = 1, c_type = ''Science''\<rparr>, \<lparr>c_id = 4, c_type = ''History''\<rparr>],
      question_id_seq = 4\<rparr>"

definition orphan_store :: store where
  "orphan_store =
     \<lparr>questions =
        [\<lparr>q_id = 1, q_question = ''Who hosts the family feud TV show ?'',
          q_answer = ''Steve Harvey'', q_difficulty = 2, q_category = 5\<rparr>],
      categories = [\<lparr>c_id = 1, c_type = ''Science''\<rparr>],
      question_id_seq = 2\<rparr>"


section \<open>Pagination\<close>

lemma take_min_length: "take (min m (length ys)) ys = take m ys"
  by (simp add: min_def)

lemma py_slice_nonneg:
  assumes "0 \<le> start" and "0 \<le> len"
  shows "py_slice xs start (start + len) = take (nat len) (drop (nat start) xs)"
proof (cases "nat start \<le> length xs")
  case True
  have lo: "slice_bound start (length xs) = nat start"
    using assms True by (simp add: slice_bound_def)
  have hi: "slice_bound (start + len) (length xs) = min (nat start + nat len) (length xs)"
    using assms by (simp add: slice_bound_def nat_add_distrib)
  have "min (nat start + nat len) (length xs) - nat start
        = min (nat len) (length (drop (nat start) xs))"
    using True by (simp add: min_def) arith
  then have "take (slice_bound (start + len) (length xs) - slice_bound start (length xs))
                (drop (nat start) xs) = take (nat len) (drop (nat start) xs)"
    by (simp only: lo hi take_min_length)
  then show ?thesis
    by (simp add: py_slice_def Let_def lo)
next
  case False
  then have "slice_bound start (length xs) = length xs"
    using assms by (simp add: slice_bound_def)
  with False show ?thesis
    by (simp add: py_slice_def)
qed

lemma paginate_resources_page_eq:
  assumes "0 < s" and "1 \<le> p" and "(case args_page request of None \<Rightarrow> 1 | Some p' \<Rightarrow> p') = p"
  shows "paginate_resources format request selection s
         = map format (take (nat s) (drop (nat ((p - 1) * s)) selection))"
proof -
  have "0 \<le> (p - 1) * s" and "0 \<le> s"
    using assms by simp_all
  then show ?thesis
    using assms(3) by (simp add: paginate_resources_def py_slice_nonneg take_map drop_map)
qed

text \<open>
  C5. For every list of records, every page size \<open>s > 0\<close> and every page number
  \<open>p \<ge> 1\<close> (the default page being 1), \<open>paginate_resources\<close> returns exactly the formatted
  elements at offsets \<open>(p - 1) * s\<close> up to \<open>p * s\<close> exclusive, clamped to the length of the
  list: the result is the formatted \<open>take s (drop ((p - 1) * s) selection)\<close>, its length is
  \<open>min s (length selection - (p - 1) * s)\<close>, its \<open>i\<close>-th element is the formatted element
  at offset \<open>(p - 1) * s + i\<close>, and where \<open>(p - 1) * s\<close> is at or past the end of the list the
  result is the empty list.
\<close>

theorem paginate_resources_page:
  assumes "0 < s" and "1 \<le> p"
    and "(case args_page request of None \<Rightarrow> 1 | Some p' \<Rightarrow> p') = p"
  shows "paginate_resources format request selection s
           = map format (take (nat s) (drop (nat ((p - 1) * s)) selection))
         \<and> length (paginate_resources format request selection s)
           = min (nat s) (length selection - nat ((p - 1) * s))
         \<and> (\<forall>i < length (paginate_resources format request selection s).
               paginate_resources format request selection s ! i
               = format (selection ! (nat ((p - 1) * s) + i)))
         \<and> (int (length selection) \<le> (p - 1) * s
              \<longrightarrow> paginate_resources format request selection s = [])"
proof -
  let ?page = "paginate_resources format request selection s"
  have eq: "?page = map format (take (nat s) (drop (nat ((p - 1) * s)) selection))"
    using assms by (rule paginate_resources_page_eq)
  have len: "length ?page = min (nat s) (length selection - nat ((p - 1) * s))"
    by (simp add: eq)
  have nth: "\<forall>i < length ?page. ?page ! i = format (selection ! (nat ((p - 1) * s) + i))"
  proof (intro allI impI)
    fix i
    assume "i < length ?page"
    then have i: "i < nat s" "i < length selection - nat ((p - 1) * s)"
      by (simp_all add: len)
    then have "nat ((p - 1) * s) \<le> length selection"
      by simp
    with i show "?page ! i = format (selection ! (nat ((p - 1) * s) + i))"
      by (simp add: eq)
  qed
  have past: "int (length selection) \<le> (p - 1) * s \<longrightarrow> ?page = []"
    by (simp add: eq)
  from eq len nth past show ?thesis by blast
qed

theorem paginate_resources_page_witness:
  "paginate_resources q_id \<lparr>args_page = Some 2\<rparr> (questions sample_store) 2 = [3]
   \<and> length (paginate_resources q_id \<lparr>args_page = Some 2\<rparr> (questions sample_store) 2) = 1
   \<and> paginate_resources q_id \<lparr>args_page = Some 3\<rparr> (questions sample_store) 2 = []"
proof -
  have size: "(0::int) < 2" by simp
  have second: "(1::int) \<le> 2"
    "(case args_page \<lparr>args_page = Some 2\<rparr> of None \<Rightarrow> 1 | Some p' \<Rightarrow> p') = (2::int)"
    by simp_all
  have third: "(1::int) \<le> 3"
    "(case args_page \<lparr>args_page = Some 3\<rparr> of None \<Rightarrow> 1 | Some p' \<Rightarrow> p') = (3::int)"
    by simp_all
  have past: "int (length (questions sample_store)) \<le> (3 - 1) * 2"
    by (simp add: sample_store_def)
  from paginate_resources_page [OF size second, of q_id "questions sample_store"]
  have "paginate_resources q_id \<lparr>args_page = Some 2\<rparr> (questions sample_store) 2 = [3]"
    by (simp add: sample_store_def)
  moreover
  from paginate_resources_page [OF size third, of q_id "questions sample_store"] past
  have "paginate_resources q_id \<lparr>args_page = Some 3\<rparr> (questions sample_store) 2 = []"
    by blast
  ultimately show ?thesis by simp
qed

section \<open>An empty page of questions\<close>

lemma full_dispatch_abort_404: "full_dispatch_request (abort 404) = not_found"
  by (simp add: full_dispatch_request_def abort_def errorhandler_def)

lemma get_questions_empty:
  assumes "paginate_resources format_question request (sort_key q_id (questions st))
             QUESTIONS_PER_PAGE = []"
  shows "get_questions request st = abort 404"
  using assms by (simp add: get_questions_def)

text \<open>
  C7. For every store and every page number \<open>p \<ge> 1\<close>: where the page of questions at \<open>p\<close> is
  empty, and in particular where \<open>p\<close> lies beyond the last page, \<^verbatim>\<open>GET /questions?page=p\<close>
  responds with status 404 and the message "resource not found".
\<close>

theorem get_questions_empty_page_404:
  assumes "1 \<le> p" and "(case args_page request of None \<Rightarrow> 1 | Some p' \<Rightarrow> p') = p"
  shows "(paginate_resources format_question request (sort_key q_id (questions st))
            QUESTIONS_PER_PAGE = []
          \<longrightarrow> full_dispatch_request (get_questions request st)
              = Response 404 (Failure 404 ''resource not found''))
       \<and> (int (length (questions st)) \<le> (p - 1) * QUESTIONS_PER_PAGE
          \<longrightarrow> full_dispatch_request (get_questions request st)
              = Response 404 (Failure 404 ''resource not found''))"
proof (intro conjI impI)
  assume "paginate_resources format_question request (sort_key q_id (questions st))
            QUESTIONS_PER_PAGE = []"
  then show "full_dispatch_request (get_questions request st)
             = Response 404 (Failure 404 ''resource not found'')"
    by (simp add: get_questions_empty full_dispatch_abort_404 not_found_def)
next
  assume past: "int (length (questions st)) \<le> (p - 1) * QUESTIONS_PER_PAGE"
  have "paginate_resources format_question request (sort_key q_id (questions st))
          QUESTIONS_PER_PAGE
        = map format_question (take (nat QUESTIONS_PER_PAGE)
            (drop (nat ((p - 1) * QUESTIONS_PER_PAGE)) (sort_key q_id (questions st))))"
    using assms by (intro paginate_resources_page_eq) (simp_all add: QUESTIONS_PER_PAGE_def)
  with past have "paginate_resources format_question request (sort_key q_id (questions st))
          QUESTIONS_PER_PAGE = []"
    by simp
  then show "full_dispatch_request (get_questions request st)
             = Response 404 (Failure 404 ''resource not found'')"
    by (simp add: get_questions_empty full_dispatch_abort_404 not_found_def)
qed



theorem get_questions_empty_page_404_witness:
  "paginate_resources format_question \<lparr>args_page = Some 2\<rparr>
     (sort_key q_id (questions sample_store)) QUESTIONS_PER_PAGE = []
   \<and> int (length (questions sample_store)) \<le> (2 - 1) * QUESTIONS_PER_PAGE
   \<and> full_dispatch_request (get_questions \<lparr>args_page = Some 2\<rparr> sample_store)
     = Response 404 (Failure 404 ''resource not found'')"
proof -
  have page: "(1::int) \<le> 2"
    "(case args_page \<lparr>args_page = Some 2\<rparr> of None \<Rightarrow> 1 | Some p' \<Rightarrow> p') = (2::int)"
    by simp_all
  have empty: "paginate_resources format_question \<lparr>args_page = Some 2\<rparr>
     (sort_key q_id (questions sample_store)) QUESTIONS_PER_PAGE = []"
    by code_simp
  have past: "int (length (questions sample_store)) \<le> (2 - 1) * QUESTIONS_PER_PAGE"
    by code_simp
  from get_questions_empty_page_404 [OF page, of sample_store] empty past
  show ?thesis by blast
qed

section \<open>Listing questions\<close>

lemma getitem_Cons_0: "getitem (x # xs) 0 = Inr x"
  by (simp add: getitem_def)

lemma first_row_filter_None:
  assumes "\<forall>c \<in> set cs. \<not> P c"
  shows "first_row (filter P cs) = None"
proof -
  from assms have "filter P cs = []"
    by (simp add: filter_empty_conv)
  then show ?thesis
    by (simp add: first_row_def)
qed

lemma first_row_filter_Some:
  assumes "\<exists>c \<in> set cs. P c"
  shows "\<exists>c. first_row (filter P cs) = Some c"
proof -
  from assms have "filter P cs \<noteq> []"
    by (simp add: filter_empty_conv)
  then show ?thesis
    by (cases "filter P cs") (simp_all add: first_row_def)
qed

text \<open>
  C10. Where the requested page of \<^verbatim>\<open>GET /questions\<close> is not empty and the category id of
  the first question on it is the id of no stored category, the view reads \<^verbatim>\<open>.type\<close> of
  \<^verbatim>\<open>None\<close> outside any \<^verbatim>\<open>try\<close> and the response is 500 "internal error".
\<close>

theorem get_questions_missing_category_500:
  assumes "paginate_resources format_question request (sort_key q_id (questions st))
             QUESTIONS_PER_PAGE = q0 # rest"
    and "\<forall>c \<in> set (categories st). c_id c \<noteq> d_category q0"
  shows "full_dispatch_request (get_questions request st)
         = Response 500 (Failure 500 ''internal error'')"
proof -
  have "first_row (filter (\<lambda>c. c_id c = d_category q0) (categories st)) = None"
    using assms(2) by (intro first_row_filter_None) simp
  then have "get_questions request st = Inl AttributeError"
    by (simp add: get_questions_def assms(1) getitem_Cons_0)
  then show ?thesis
    by (simp add: full_dispatch_request_def internal_error_def)
qed

theorem get_questions_missing_category_500_witness:
  "paginate_resources format_question \<lparr>args_page = Some 1\<rparr>
     (sort_key q_id (questions orphan_store)) QUESTIONS_PER_PAGE
   = [format_question (hd (questions orphan_store))]
   \<and> full_dispatch_request (get_questions \<lparr>args_page = Some 1\<rparr> orphan_store)
     = Response 500 (Failure 500 ''internal error'')"
proof -
  have page: "paginate_resources format_question \<lparr>args_page = Some 1\<rparr>
     (sort_key q_id (questions orphan_store)) QUESTIONS_PER_PAGE
   = format_question (hd (questions orphan_store)) # []"
    by code_simp
  have missing: "\<forall>c \<in> set (categories orphan_store).
      c_id c \<noteq> d_category (format_question (hd (questions orphan_store)))"
    by code_simp
  from get_questions_missing_category_500 [OF page missing] page
  show ?thesis by simp
qed

text \<open>
  On \<open>orphan_store\<close> page 1 holds a question, and the response carries no question at all:
  the view fails with 500.
\<close>

theorem get_questions_page_counterexample:
  "paginate_resources format_question \<lparr>args_page = Some 1\<rparr>
     (sort_key q_id (questions orphan_store)) QUESTIONS_PER_PAGE \<noteq> []
   \<and> full_dispatch_request (get_questions \<lparr>args_page = Some 1\<rparr> orphan_store)
     = Response 500 (Failure 500 ''internal error'')"
  by code_simp

lemma sorted_page:
  "sorted (map d_id (map format_question (take n (drop m (sort_key q_id qs)))))"
proof -
  have "map d_id (map format_question (take n (drop m (sort_key q_id qs))))
        = take n (drop m (map q_id (sort_key q_id qs)))"
    by (simp add: take_map drop_map format_question_def)
  moreover have "sorted (take n (drop m (map q_id (sort_key q_id qs))))"
    by (intro sorted_wrt_take sorted_wrt_drop sorted_sort_key)
  ultimately show ?thesis by simp
qed

text \<open>
  C6, amended. For every store and every page number \<open>p \<ge> 1\<close> whose page of questions is
  not empty and whose first question refers to a stored category,
  \<^verbatim>\<open>GET /questions?page=p\<close> responds with status 200; its \<^verbatim>\<open>questions\<close> are the formatted
  \<open>take 10 (drop ((p - 1) * 10))\<close> of the questions ordered by id, which are
  \<open>min 10 (total - (p - 1) * 10)\<close> records in ascending order of id, and its
  \<^verbatim>\<open>total_questions\<close> is the number of stored questions, whatever \<open>p\<close> is.
\<close>

theorem get_questions_page:
  assumes "1 \<le> p" and "(case args_page request of None \<Rightarrow> 1 | Some p' \<Rightarrow> p') = p"
    and "paginate_resources format_question request (sort_key q_id (questions st))
           QUESTIONS_PER_PAGE = q0 # rest"
    and "\<exists>c \<in> set (categories st). c_id c = d_category q0"
  shows "(\<exists>current_category data.
            full_dispatch_request (get_questions request st)
            = Response 200
                (QuestionList (q0 # rest) (length (questions st)) current_category data))
       \<and> q0 # rest = map format_question
                       (take 10 (drop (nat ((p - 1) * 10)) (sort_key q_id (questions st))))
       \<and> length (q0 # rest) = min 10 (length (questions st) - nat ((p - 1) * 10))
       \<and> sorted (map d_id (q0 # rest))"
proof -
  have eq: "q0 # rest = map format_question
              (take 10 (drop (nat ((p - 1) * 10)) (sort_key q_id (questions st))))"
    using paginate_resources_page_eq [of QUESTIONS_PER_PAGE p request format_question
        "sort_key q_id (questions st)"] assms(1,2,3)
    by (simp add: QUESTIONS_PER_PAGE_def)
  have len: "length (q0 # rest) = min 10 (length (questions st) - nat ((p - 1) * 10))"
    by (simp only: eq length_map length_take length_drop length_sort)
  have asc: "sorted (map d_id (q0 # rest))"
    by (simp only: eq sorted_page)
  obtain cc where "first_row (filter (\<lambda>c. c_id c = d_category q0) (categories st)) = Some cc"
    using first_row_filter_Some [of "categories st" "\<lambda>c. c_id c = d_category q0"] assms(4)
    by blast
  then have "get_questions request st
             = Inr (QuestionList (q0 # rest) (length (questions st)) (c_type cc)
                     (category_data (sort_key c_id (categories st))))"
    by (simp add: get_questions_def assms(3) getitem_Cons_0)
  then have "\<exists>current_category data.
            full_dispatch_request (get_questions request st)
            = Response 200
                (QuestionList (q0 # rest) (length (questions st)) current_category data)"
    by (simp add: full_dispatch_request_def)
  with eq len asc show ?thesis by blast
qed


theorem get_questions_page_witness:
  "paginate_resources format_question \<lparr>args_page = Some 1\<rparr>
     (sort_key q_id (questions sample_store)) QUESTIONS_PER_PAGE
   = map format_question (sort_key q_id (questions sample_store))
   \<and> status_code (full_dispatch_request (get_questions \<lparr>args_page = Some 1\<rparr> sample_store))
     = 200
   \<and> length (map format_question (sort_key q_id (questions sample_store))) = 3
   \<and> map d_id (map format_question (sort_key q_id (questions sample_store))) = [1, 2, 3]"
proof -
  let ?q0 = "format_question (questions sample_store ! 1)"
  let ?rest = "[format_question (questions sample_store ! 0),
                format_question (questions sample_store ! 2)]"
  have page: "(1::int) \<le> 1"
    "(case args_page \<lparr>args_page = Some 1\<rparr> of None \<Rightarrow> 1 | Some p' \<Rightarrow> p') = (1::int)"
    by simp_all
  have all: "map format_question (sort_key q_id (questions sample_store)) = ?q0 # ?rest"
    by code_simp
  have first: "paginate_resources format_question \<lparr>args_page = Some 1\<rparr>
     (sort_key q_id (questions sample_store)) QUESTIONS_PER_PAGE = ?q0 # ?rest"
    by code_simp
  have cat: "\<exists>c \<in> set (categories sample_store). c_id c = d_category ?q0"
    by code_simp
  have ids: "map d_id (?q0 # ?rest) = [1, 2, 3]"
    by code_simp
  from get_questions_page [OF page first cat]
  have "status_code (full_dispatch_request (get_questions \<lparr>args_page = Some 1\<rparr> sample_store))
        = 200"
    and "length (?q0 # ?rest) = min 10 (length (questions sample_store) - nat ((1 - 1) * 10))"
    by auto
  with first ids show ?thesis
    by (simp add: all)
qed



section \<open>Deleting a question\<close>

text \<open>
  C1, amended. For every question id that is the id of no stored question,
  \<^verbatim>\<open>DELETE /questions/{id}\<close> responds with status 422 "unprocessable" and leaves the store
  unchanged: the view's \<^verbatim>\<open>abort(404)\<close> is raised inside its own \<^verbatim>\<open>try\<close>, whose bare
  \<^verbatim>\<open>except\<close> replaces it by \<^verbatim>\<open>abort(422)\<close>.
\<close>

theorem delete_question_missing_422:
  assumes "int question_id \<notin> q_id ` set (questions st)"
  shows "full_dispatch_request (fst (delete_question question_id st))
         = Response 422 (Failure 422 ''unprocessable'')
       \<and> snd (delete_question question_id st) = st"
proof -
  from assms have "filter (\<lambda>q. q_id q = int question_id) (questions st) = []"
    by (force simp: filter_empty_conv)
  then have "delete_question question_id st = (Inl (HTTPException 422), st)"
    by (simp add: delete_question_def one_or_none_def try_except_abort_def abort_def)
  then show ?thesis
    by (simp add: full_dispatch_request_def errorhandler_def unprocessable_def)
qed

theorem delete_question_missing_422_witness:
  "int 581322897 \<notin> q_id ` set (questions sample_store)
   \<and> full_dispatch_request (fst (delete_question 581322897 sample_store))
     = Response 422 (Failure 422 ''unprocessable'')
   \<and> snd (delete_question 581322897 sample_store) = sample_store"
proof -
  have missing: "int 581322897 \<notin> q_id ` set (questions sample_store)"
    by (simp add: sample_store_def)
  from delete_question_missing_422 [OF missing] missing
  show ?thesis by blast
qed

text \<open>
  No question of \<open>sample_store\<close> has the id 581322897, and deleting it is answered with 422,
  not with 404.
\<close>

theorem delete_question_missing_counterexample:
  "int 581322897 \<notin> q_id ` set (questions sample_store)
   \<and> full_dispatch_request (fst (delete_question 581322897 sample_store))
     \<noteq> Response 404 (Failure 404 ''resource not found'')
   \<and> status_code (full_dispatch_request (fst (delete_question 581322897 sample_store))) = 422"
  by (simp add: sample_store_def delete_question_def one_or_none_def try_except_abort_def
      abort_def full_dispatch_request_def errorhandler_def unprocessable_def)

section \<open>Questions of a category\<close>

text \<open>
  C2. The claim is that a category id that is the id of no stored category is answered with
  404 "resource not found". The view raises \<^verbatim>\<open>abort(404)\<close> inside its \<^verbatim>\<open>try\<close>, and the bare
  \<^verbatim>\<open>except\<close> replaces it by \<^verbatim>\<open>abort(400)\<close>: on \<open>sample_store\<close>, which has no category
  58132144, \<^verbatim>\<open>GET /categories/58132144/questions\<close> is answered with 400 "bad request".
\<close>

theorem get_questions_from_category_missing_400:
  "int 58132144 \<notin> c_id ` set (categories sample_store)
   \<and> full_dispatch_request
       (get_questions_from_category 58132144 \<lparr>args_page = None\<rparr> sample_store)
     = Response 400 (Failure 400 ''bad request'')"
  by (simp add: sample_store_def get_questions_from_category_def one_or_none_def
      try_except_abort_def abort_def full_dispatch_request_def errorhandler_def
      bad_request_def)

text \<open>The same holds on every store and for every id that is not stored.\<close>

lemma get_questions_from_category_missing:
  assumes "int category_id \<notin> c_id ` set (categories st)"
  shows "full_dispatch_request (get_questions_from_category category_id request st)
         = Response 400 (Failure 400 ''bad request'')"
proof -
  from assms have "filter (\<lambda>c. c_id c = int category_id) (categories st) = []"
    by (force simp: filter_empty_conv)
  then have "get_questions_from_category category_id request st = Inl (HTTPException 400)"
    by (simp add: get_questions_from_category_def one_or_none_def try_except_abort_def
        abort_def)
  then show ?thesis
    by (simp add: full_dispatch_request_def errorhandler_def bad_request_def)
qed


section \<open>Posting to /questions\<close>

lemma full_dispatch_422:
  "full_dispatch_request (Inl (HTTPException 422)) = Response 422 (Failure 422 ''unprocessable'')"
  by (simp add: full_dispatch_request_def errorhandler_def unprocessable_def)

lemma create_new_question_no_trigger:
  assumes "\<not> truthy (dict_get kvs ''searchTerm'')"
    and "\<not> (truthy (dict_get kvs ''question'') \<and> truthy (dict_get kvs ''answer'')
             \<and> truthy (dict_get kvs ''difficulty'') \<and> truthy (dict_get kvs ''category''))"
    and "\<not> truthy (dict_get kvs ''type'')"
  shows "create_new_question ilike columns request (JObj kvs) st
         = (Inl (HTTPException 422), st)"
  using assms
  by (auto simp: create_new_question_def Let_def try_except_abort_def abort_def)

text \<open>
  C3, amended. For every \<^verbatim>\<open>POST /questions\<close> body that is an object with no truthy
  \<^verbatim>\<open>searchTerm\<close>, not all four of \<^verbatim>\<open>question\<close>, \<^verbatim>\<open>answer\<close>, \<^verbatim>\<open>difficulty\<close>,
  \<^verbatim>\<open>category\<close> truthy, and no truthy \<^verbatim>\<open>type\<close>, the endpoint responds with status 422
  "unprocessable": the \<^verbatim>\<open>abort(400)\<close> of the last branch is raised inside the \<^verbatim>\<open>try\<close>, whose
  bare \<^verbatim>\<open>except\<close> replaces it by \<^verbatim>\<open>abort(422)\<close>.
\<close>

theorem create_new_question_no_trigger_422:
  assumes "\<not> truthy (dict_get kvs ''searchTerm'')"
    and "\<not> (truthy (dict_get kvs ''question'') \<and> truthy (dict_get kvs ''answer'')
             \<and> truthy (dict_get kvs ''difficulty'') \<and> truthy (dict_get kvs ''category''))"
    and "\<not> truthy (dict_get kvs ''type'')"
  shows "full_dispatch_request (fst (create_new_question ilike columns request (JObj kvs) st))
         = Response 422 (Failure 422 ''unprocessable'')"
  using create_new_question_no_trigger [OF assms] by (simp add: full_dispatch_422)

theorem create_new_question_no_trigger_422_witness:
  "\<not> truthy (dict_get [(''question'', JStr ''I have no answer ?'')] ''searchTerm'')
   \<and> \<not> truthy (dict_get [(''question'', JStr ''I have no answer ?'')] ''answer'')
   \<and> \<not> truthy (dict_get [(''question'', JStr ''I have no answer ?'')] ''type'')
   \<and> full_dispatch_request
        (fst (create_new_question postgres_ilike postgres_columns \<lparr>args_page = None\<rparr>
                (JObj [(''question'', JStr ''I have no answer ?'')]) sample_store))
     = Response 422 (Failure 422 ''unprocessable'')"
proof -
  let ?kvs = "[(''question'', JStr ''I have no answer ?'')]"
  have search: "\<not> truthy (dict_get ?kvs ''searchTerm'')"
    and answer: "\<not> truthy (dict_get ?kvs ''answer'')"
    and no_type: "\<not> truthy (dict_get ?kvs ''type'')"
    by (simp_all add: dict_get_def)
  from answer have four: "\<not> (truthy (dict_get ?kvs ''question'') \<and> truthy (dict_get ?kvs ''answer'')
             \<and> truthy (dict_get ?kvs ''difficulty'') \<and> truthy (dict_get ?kvs ''category''))"
    by blast
  from create_new_question_no_trigger_422 [OF search four no_type] search answer no_type
  show ?thesis by blast
qed

text \<open>
  The body \<^verbatim>\<open>{"question": "I have no answer ?"}\<close> has none of the three triggers and is
  answered with 422, not with 400.
\<close>

theorem create_new_question_no_trigger_counterexample:
  "\<not> truthy (dict_get [(''question'', JStr ''I have no answer ?'')] ''searchTerm'')
   \<and> \<not> truthy (dict_get [(''question'', JStr ''I have no answer ?'')] ''answer'')
   \<and> \<not> truthy (dict_get [(''question'', JStr ''I have no answer ?'')] ''type'')
   \<and> full_dispatch_request
        (fst (create_new_question postgres_ilike postgres_columns \<lparr>args_page = None\<rparr>
                (JObj [(''question'', JStr ''I have no answer ?'')]) sample_store))
     \<noteq> Response 400 (Failure 400 ''bad request'')
   \<and> status_code (full_dispatch_request
        (fst (create_new_question postgres_ilike postgres_columns \<lparr>args_page = None\<rparr>
                (JObj [(''question'', JStr ''I have no answer ?'')]) sample_store))) = 422"
  by code_simp

lemma create_new_question_search_empty:
  assumes "truthy (dict_get kvs ''searchTerm'')"
    and "paginate_resources format_question request
           (filter (\<lambda>q. ilike (dict_get kvs ''searchTerm'') (q_question q))
              (sort_key q_id (questions st)))
           QUESTIONS_PER_PAGE = []"
  shows "create_new_question ilike columns request (JObj kvs) st
         = (Inl (HTTPException 422), st)"
proof -
  have "getitem ([] :: question_dict list) 0 = Inl IndexError"
    by (simp add: getitem_def)
  with assms show ?thesis
    by (simp add: create_new_question_def Let_def try_except_abort_def abort_def)
qed

text \<open>
  C8, amended. For every \<^verbatim>\<open>POST /questions\<close> body with a truthy \<^verbatim>\<open>searchTerm\<close> whose
  \<^verbatim>\<open>ILIKE\<close> match against the question texts, ordered by id, has no question on the requested
  page, the endpoint responds with status 422 "unprocessable" (so neither with 404 nor with
  a successful empty list), and the store is unchanged: \<^verbatim>\<open>current_questions[0]\<close> raises inside
  the \<^verbatim>\<open>try\<close>. The match is the database's test \<open>ilike\<close> on the pattern
  \<^verbatim>\<open>%searchTerm%\<close>, in which a \<^verbatim>\<open>%\<close> or \<^verbatim>\<open>_\<close> of the term is a wildcard; the statement holds
  for every such test, \<open>postgres_ilike\<close> among them.
\<close>

theorem search_empty_page_422:
  assumes "truthy (dict_get kvs ''searchTerm'')"
    and "paginate_resources format_question request
           (filter (\<lambda>q. ilike (dict_get kvs ''searchTerm'') (q_question q))
              (sort_key q_id (questions st)))
           QUESTIONS_PER_PAGE = []"
  shows "full_dispatch_request (fst (create_new_question ilike columns request (JObj kvs) st))
         = Response 422 (Failure 422 ''unprocessable'')
       \<and> snd (create_new_question ilike columns request (JObj kvs) st) = st"
  using create_new_question_search_empty [where ilike = ilike and columns = columns, OF assms]
  by (simp add: full_dispatch_422)

theorem search_empty_page_422_witness:
  "truthy (dict_get [(''searchTerm'', JStr ''zebra'')] ''searchTerm'')
   \<and> paginate_resources format_question \<lparr>args_page = None\<rparr>
           (filter (\<lambda>q. postgres_ilike (dict_get [(''searchTerm'', JStr ''zebra'')] ''searchTerm'')
                          (q_question q))
              (sort_key q_id (questions sample_store)))
           QUESTIONS_PER_PAGE = []
   \<and> full_dispatch_request
        (fst (create_new_question postgres_ilike postgres_columns \<lparr>args_page = None\<rparr>
                (JObj [(''searchTerm'', JStr ''zebra'')]) sample_store))
     = Response 422 (Failure 422 ''unprocessable'')"
proof -
  let ?kvs = "[(''searchTerm'', JStr ''zebra'')]"
  have searching: "truthy (dict_get ?kvs ''searchTerm'')"
    by (simp add: dict_get_def)
  have empty: "paginate_resources format_question \<lparr>args_page = None\<rparr>
           (filter (\<lambda>q. postgres_ilike (dict_get ?kvs ''searchTerm'') (q_question q))
              (sort_key q_id (questions sample_store)))
           QUESTIONS_PER_PAGE = []"
    by code_simp
  from search_empty_page_422 [where ilike = postgres_ilike and columns = postgres_columns
      and kvs = ?kvs and request = "\<lparr>args_page = None\<rparr>" and st = sample_store,
      OF searching empty] searching empty
  show ?thesis by blast
qed

text \<open>
  As a plain substring the term \<^verbatim>\<open>_\<close> occurs in no question text of \<open>sample_store\<close>, so the
  substring match has no question on the page; as an \<^verbatim>\<open>ILIKE\<close> pattern \<^verbatim>\<open>%_%\<close> matches every
  text that is not empty, and the search is answered with 200 and all three questions.
\<close>

theorem search_substring_counterexample:
  "truthy (dict_get [(''searchTerm'', JStr ''_'')] ''searchTerm'')
   \<and> paginate_resources format_question \<lparr>args_page = None\<rparr>
       (filter (substring_ci ''_'' \<circ> q_question) (sort_key q_id (questions sample_store)))
       QUESTIONS_PER_PAGE = []
   \<and> full_dispatch_request
        (fst (create_new_question postgres_ilike postgres_columns \<lparr>args_page = None\<rparr>
                (JObj [(''searchTerm'', JStr ''_'')]) sample_store))
     = Response 200
         (QuestionPage (map format_question (sort_key q_id (questions sample_store))) 3
            ''History'')
   \<and> full_dispatch_request
        (fst (create_new_question postgres_ilike postgres_columns \<lparr>args_page = None\<rparr>
                (JObj [(''searchTerm'', JStr ''_'')]) sample_store))
     \<noteq> Response 422 (Failure 422 ''unprocessable'')"
  by code_simp

text \<open>Where the term is a string with no \<^verbatim>\<open>%\<close>, \<^verbatim>\<open>_\<close> or backslash in it, the pattern match
  of \<open>postgres_ilike\<close> is the substring match, and the search that finds nothing on the page is
  answered with 422 as the claim was worded.\<close>

lemma like_percent: "like ''%'' t"
  by (induction t) simp_all

lemma like_prefix:
  assumes "wildcard_free s"
  shows "like (s @ ''%'') t \<longleftrightarrow> take (length s) t = s"
  using assms
proof (induction s arbitrary: t)
  case Nil
  then show ?case
    using like_percent by simp
next
  case (Cons a s)
  then have a: "a \<noteq> CHR ''%''" "a \<noteq> CHR ''_''" "a \<noteq> CHR 0x5C" and s: "wildcard_free s"
    by (simp_all add: wildcard_free_def)
  show ?case
  proof (cases t)
    case Nil
    with a show ?thesis by simp
  next
    case (Cons c cs)
    with a Cons.IH [OF s, of cs] show ?thesis
      by auto
  qed
qed

lemma like_contains:
  assumes "wildcard_free s"
  shows "like (''%'' @ s @ ''%'') t \<longleftrightarrow> contains s t"
proof (induction t)
  case Nil
  have "like (s @ ''%'') [] \<longleftrightarrow> s = []"
    using like_prefix [OF assms, of "[]"] by auto
  then show ?case by simp
next
  case (Cons c cs)
  have "like (s @ ''%'') (c # cs) \<longleftrightarrow> take (length s) (c # cs) = s"
    by (rule like_prefix [OF assms])
  with Cons show ?case
    by simp
qed

lemma ascii_lower_percent: "ascii_lower CHR ''%'' = CHR ''%''"
  by (simp add: ascii_lower_def)

lemma ascii_lower_letter:
  assumes "65 \<le> (of_char c :: nat)" and "(of_char c :: nat) \<le> 90"
  shows "(of_char (ascii_lower c) :: nat) = of_char c + 32"
proof -
  have "(of_char (char_of (of_char c + 32 :: nat)) :: nat) = (of_char c + 32) mod 256"
    by (simp only: of_char_of)
  with assms show ?thesis
    by (simp add: ascii_lower_def)
qed

lemma ascii_lower_not_special:
  assumes "c \<noteq> CHR ''%'' \<and> c \<noteq> CHR ''_'' \<and> c \<noteq> CHR 0x5C"
  shows "ascii_lower c \<noteq> CHR ''%'' \<and> ascii_lower c \<noteq> CHR ''_''
         \<and> ascii_lower c \<noteq> CHR 0x5C"
proof (cases "65 \<le> (of_char c :: nat) \<and> (of_char c :: nat) \<le> 90")
  case True
  then have "(of_char (ascii_lower c) :: nat) = of_char c + 32"
    by (simp add: ascii_lower_letter)
  with True have "97 \<le> (of_char (ascii_lower c) :: nat)"
    by simp
  then show ?thesis
    by auto
next
  case False
  then have "ascii_lower c = c"
    by (auto simp: ascii_lower_def)
  with assms show ?thesis
    by simp
qed

lemma ascii_lower_wildcard_free: "wildcard_free s \<Longrightarrow> wildcard_free (map ascii_lower s)"
  by (simp add: wildcard_free_def ascii_lower_not_special)

lemma postgres_ilike_substring:
  assumes "wildcard_free s"
  shows "postgres_ilike (JStr s) t = substring_ci s t"
  using like_contains [OF ascii_lower_wildcard_free [OF assms]]
  by (simp add: postgres_ilike_def substring_ci_def format_value_def ascii_lower_percent)


lemma search_wildcard_free_422:
  assumes "map_of kvs ''searchTerm'' = Some (JStr s)" and "s \<noteq> []" and "wildcard_free s"
    and "paginate_resources format_question request
           (filter (substring_ci s \<circ> q_question) (sort_key q_id (questions st)))
           QUESTIONS_PER_PAGE = []"
  shows "full_dispatch_request
           (fst (create_new_question postgres_ilike columns request (JObj kvs) st))
         = Response 422 (Failure 422 ''unprocessable'')"
proof -
  have found: "dict_get kvs ''searchTerm'' = JStr s"
    using assms(1) by (simp add: dict_get_def)
  have "filter (\<lambda>q. postgres_ilike (dict_get kvs ''searchTerm'') (q_question q))
          (sort_key q_id (questions st))
        = filter (substring_ci s \<circ> q_question) (sort_key q_id (questions st))"
    by (simp add: found postgres_ilike_substring [OF assms(3)] comp_def)
  with assms(4) have empty: "paginate_resources format_question request
           (filter (\<lambda>q. postgres_ilike (dict_get kvs ''searchTerm'') (q_question q))
              (sort_key q_id (questions st)))
           QUESTIONS_PER_PAGE = []"
    by simp
  have searching: "truthy (dict_get kvs ''searchTerm'')"
    using assms(2) by (simp add: found)
  have "create_new_question postgres_ilike columns request (JObj kvs) st
        = (Inl (HTTPException 422), st)"
    using create_new_question_search_empty [where ilike = postgres_ilike
        and columns = columns, OF searching empty] .
  then show ?thesis
    by (simp add: full_dispatch_422)
qed

text \<open>The body the repository's test posts to create a question, its category the string
  \<^verbatim>\<open>"5"\<close>, is stored and answered with 200.\<close>

lemma create_new_question_test_body:
  "full_dispatch_request
     (fst (create_new_question postgres_ilike postgres_columns \<lparr>args_page = None\<rparr>
        (JObj [(''question'', JStr ''Who hosts the family feud TV show ?''),
               (''answer'', JStr ''Steve Harvey''), (''difficulty'', JInt 2),
               (''category'', JStr ''5'')]) sample_store))
   = Response 200 Created"
  by code_simp

text \<open>
  C9. For every \<^verbatim>\<open>POST /questions\<close> body that has all four keys \<^verbatim>\<open>question\<close>, \<^verbatim>\<open>answer\<close>,
  \<^verbatim>\<open>difficulty\<close>, \<^verbatim>\<open>category\<close> with at least one falsy value, and no truthy
  \<^verbatim>\<open>searchTerm\<close> or \<^verbatim>\<open>type\<close>: no question is inserted, the store is unchanged, and the
  response is an error (422 "unprocessable", with \<^verbatim>\<open>success\<close> false) instead of a success.
\<close>

theorem create_needs_all_truthy:
  assumes "map_of kvs ''question'' = Some question"
    and "map_of kvs ''answer'' = Some answer"
    and "map_of kvs ''difficulty'' = Some difficulty"
    and "map_of kvs ''category'' = Some category"
    and "\<not> truthy question \<or> \<not> truthy answer \<or> \<not> truthy difficulty \<or> \<not> truthy category"
    and "\<not> truthy (dict_get kvs ''searchTerm'')"
    and "\<not> truthy (dict_get kvs ''type'')"
  shows "snd (create_new_question ilike columns request (JObj kvs) st) = st
       \<and> questions (snd (create_new_question ilike columns request (JObj kvs) st))
         = questions st
       \<and> full_dispatch_request (fst (create_new_question ilike columns request (JObj kvs) st))
         = Response 422 (Failure 422 ''unprocessable'')
       \<and> \<not> success (data (full_dispatch_request
                (fst (create_new_question ilike columns request (JObj kvs) st))))"
proof -
  have "\<not> (truthy (dict_get kvs ''question'') \<and> truthy (dict_get kvs ''answer'')
             \<and> truthy (dict_get kvs ''difficulty'') \<and> truthy (dict_get kvs ''category''))"
    using assms(1-5) by (auto simp: dict_get_def)
  with assms(6,7) have "create_new_question ilike columns request (JObj kvs) st
                        = (Inl (HTTPException 422), st)"
    by (intro create_new_question_no_trigger)
  then show ?thesis
    by (simp add: full_dispatch_422)
qed

theorem create_needs_all_truthy_witness:
  "map_of [(''question'', JStr ''Who hosts the family feud TV show ?''), (''answer'', JStr []),
           (''difficulty'', JInt 0), (''category'', JStr ''5'')] ''answer'' = Some (JStr [])
   \<and> \<not> truthy (JStr [])
   \<and> snd (create_new_question postgres_ilike postgres_columns \<lparr>args_page = None\<rparr>
        (JObj [(''question'', JStr ''Who hosts the family feud TV show ?''),
               (''answer'', JStr []), (''difficulty'', JInt 0), (''category'', JStr ''5'')])
        sample_store) = sample_store
   \<and> full_dispatch_request
        (fst (create_new_question postgres_ilike postgres_columns \<lparr>args_page = None\<rparr>
          (JObj [(''question'', JStr ''Who hosts the family feud TV show ?''),
                 (''answer'', JStr []), (''difficulty'', JInt 0), (''category'', JStr ''5'')])
          sample_store))
     = Response 422 (Failure 422 ''unprocessable'')"
proof -
  let ?kvs = "[(''question'', JStr ''Who hosts the family feud TV show ?''),
               (''answer'', JStr []), (''difficulty'', JInt 0), (''category'', JStr ''5'')]"
  have keys: "map_of ?kvs ''question'' = Some (JStr ''Who hosts the family feud TV show ?'')"
    "map_of ?kvs ''answer'' = Some (JStr [])"
    "map_of ?kvs ''difficulty'' = Some (JInt 0)"
    "map_of ?kvs ''category'' = Some (JStr ''5'')"
    by simp_all
  have falsy: "\<not> truthy (JStr ''Who hosts the family feud TV show ?'') \<or> \<not> truthy (JStr [])
               \<or> \<not> truthy (JInt 0) \<or> \<not> truthy (JStr ''5'')"
    by simp
  have others: "\<not> truthy (dict_get ?kvs ''searchTerm'')" "\<not> truthy (dict_get ?kvs ''type'')"
    by (simp_all add: dict_get_def)
  from create_needs_all_truthy [where ilike = postgres_ilike and columns = postgres_columns
      and request = "\<lparr>args_page = None\<rparr>" and st = sample_store, OF keys falsy others]
    keys(2)
  show ?thesis by simp
qed

section \<open>Quizzes\<close>

lemma set_py_slice: "set (py_slice xs start end) \<subseteq> set xs"
proof -
  have "set (take n (drop m xs)) \<subseteq> set xs" for n m
    using set_take_subset [of n "drop m xs"] set_drop_subset [of m xs] by blast
  then show ?thesis
    by (simp add: py_slice_def Let_def)
qed

lemma set_paginate_resources:
  "set (paginate_resources format request selection max_page) \<subseteq> format ` set selection"
  using set_py_slice [of "map format selection"]
  by (simp add: paginate_resources_def Let_def)

lemma random_choice_member:
  assumes "random_choice draw seq = Inr x"
  shows "x \<in> set seq"
proof (cases "seq = []")
  case True
  with assms show ?thesis
    by (simp add: random_choice_def)
next
  case False
  then have "draw mod length seq < length seq"
    by simp
  moreover from assms False have "x = seq ! (draw mod length seq)"
    by (simp add: random_choice_def)
  ultimately show ?thesis
    by simp
qed

lemma full_dispatch_QuizQuestion:
  assumes "full_dispatch_request outcome = Response code (QuizQuestion q)"
    and "outcome = try_except_abort inner 422"
  shows "inner = Inr (QuizQuestion q)"
proof (cases inner)
  case (Inl e)
  with assms show ?thesis
    by (simp add: try_except_abort_def abort_def full_dispatch_422)
next
  case (Inr p)
  with assms show ?thesis
    by (simp add: try_except_abort_def full_dispatch_request_def)
qed

text \<open>
  C4. For every \<^verbatim>\<open>POST /quizzes\<close> request with a list \<^verbatim>\<open>previous_questions\<close> and a
  \<^verbatim>\<open>quiz_category\<close> that may be absent, and for every draw of the random source: whenever
  the endpoint answers with a question, the id of that question is not an element of
  \<^verbatim>\<open>previous_questions\<close>, and if a \<^verbatim>\<open>quiz_category\<close> is supplied the category of the
  question is the id of that \<^verbatim>\<open>quiz_category\<close>.
\<close>

theorem get_quizzes_unseen:
  assumes "full_dispatch_request (get_quizzes draw request body st)
           = Response code (QuizQuestion q)"
    and "previous_questions body = Some previous"
  shows "d_id q \<notin> set previous
       \<and> (\<forall>qc. quiz_category body = Some qc \<longrightarrow> d_category q = c_id qc)"
proof -
  define selection where "selection =
       (case quiz_category body of
          None \<Rightarrow> filter (\<lambda>q. q_id q \<notin> set previous) (questions st)
        | Some qc \<Rightarrow>
            filter (\<lambda>q. q_id q \<notin> set previous \<and> q_category q = c_id qc) (questions st))"
  define current_questions where "current_questions =
       paginate_resources format_question request selection QUESTIONS_PER_PAGE"
  define inner where "inner =
       (case random_choice draw current_questions of
          Inl e \<Rightarrow> Inl e
        | Inr random_question \<Rightarrow> Inr (QuizQuestion random_question))"
  have "get_quizzes draw request body st = try_except_abort inner 422"
    by (simp add: get_quizzes_def assms(2) inner_def current_questions_def selection_def)
  with assms(1) have "inner = Inr (QuizQuestion q)"
    by (intro full_dispatch_QuizQuestion)
  then have "random_choice draw current_questions = Inr q"
    by (simp add: inner_def split: sum.splits)
  then have "q \<in> set current_questions"
    by (rule random_choice_member)
  then obtain r where r: "r \<in> set selection" "q = format_question r"
    using set_paginate_resources [of format_question request selection QUESTIONS_PER_PAGE]
    by (auto simp: current_questions_def)
  show ?thesis
  proof (cases "quiz_category body")
    case None
    with r show ?thesis
      by (simp add: selection_def format_question_def)
  next
    case (Some qc)
    with r show ?thesis
      by (simp add: selection_def format_question_def)
  qed
qed

theorem get_quizzes_unseen_witness:
  "full_dispatch_request
     (get_quizzes 5 \<lparr>args_page = None\<rparr>
        \<lparr>previous_questions = Some [1], quiz_category = Some \<lparr>c_id = 4, c_type = ''History''\<rparr>\<rparr>
        sample_store)
   = Response 200 (QuizQuestion (format_question (questions sample_store ! 2)))
   \<and> d_id (format_question (questions sample_store ! 2)) \<notin> set [1]
   \<and> d_category (format_question (questions sample_store ! 2)) = 4"
proof -
  let ?body = "\<lparr>previous_questions = Some [1],
                quiz_category = Some \<lparr>c_id = 4, c_type = ''History''\<rparr>\<rparr>"
  have answer: "full_dispatch_request
     (get_quizzes 5 \<lparr>args_page = None\<rparr> ?body sample_store)
   = Response 200 (QuizQuestion (format_question (questions sample_store ! 2)))"
    by code_simp
  have previous: "previous_questions ?body = Some [1]"
    by simp
  from get_quizzes_unseen [OF answer previous] answer
  show ?thesis by simp
qed

end
